theory Spec2Isabelle
  imports
    Complex_Main
    "HOL-Library.Char_ord"
    "HOL-Library.List_Lexorder"
    "HOL-Library.Product_Lexorder"
    "HOL-Library.Sublist"
    "HOL-Library.AList"
    "HOL-Library.Multiset"
begin

section \<open>Values, columns and frames\<close>

text \<open>
  A float64 value that is not NaN.  Finite values are exact rationals (rounding and the
  sign of zero are not modelled); the two infinities are values of their own, as in
  numpy.  NaN is the missing marker of pandas and is the constructor \<open>NA\<close> of a cell,
  or \<open>None\<close> in a column that holds numbers only.
\<close>

datatype num = NInf | Fin rat | PInf

datatype cell = NA | Str string | Num num

datatype error = KeyError | AttributeError | TypeError

datatype dtype = Object | Float64

datatype series = Series (dtype: dtype) (vals: "cell list")

type_synonym frame = "(string \<times> series) list"

text \<open>\<open>df[col]\<close> raises KeyError for a column the frame does not have.\<close>

definition getcol :: "frame \<Rightarrow> string \<Rightarrow> error + series" where
  "getcol df col = (case map_of df col of None \<Rightarrow> Inl KeyError | Some s \<Rightarrow> Inr s)"

text \<open>\<open>df[col] = s\<close> replaces the column in place, or appends a new one.\<close>

definition setcol :: "frame \<Rightarrow> string \<Rightarrow> series \<Rightarrow> frame" where
  "setcol df col s = AList.update col s df"

definition bind_err :: "error + 'a \<Rightarrow> ('a \<Rightarrow> error + 'b) \<Rightarrow> error + 'b" where
  "bind_err m f = (case m of Inl e \<Rightarrow> Inl e | Inr x \<Rightarrow> f x)"

section \<open>Python string operations\<close>

text \<open>
  A string is a list of bytes.  \<open>lower\<close> and \<open>strip\<close> act on the ASCII letters and the ASCII
  white space of Python (codes 9 to 13 and 28 to 32); the bytes of other characters are
  left as they are.
\<close>

definition is_space :: "char \<Rightarrow> bool" where
  "is_space c = (let n = (of_char c :: nat) in (9 \<le> n \<and> n \<le> 13) \<or> (28 \<le> n \<and> n \<le> 32))"

definition char_lower :: "char \<Rightarrow> char" where
  "char_lower c = (let n = (of_char c :: nat) in if 65 \<le> n \<and> n \<le> 90 then char_of (n + 32) else c)"

definition lower :: "string \<Rightarrow> string" where
  "lower s = map char_lower s"

definition strip :: "string \<Rightarrow> string" where
  "strip s = rev (dropWhile is_space (rev (dropWhile is_space s)))"

text \<open>\<open>x in s\<close> for strings: \<open>x\<close> occurs in \<open>s\<close> as a contiguous block.\<close>

fun str_contains :: "string \<Rightarrow> string \<Rightarrow> bool" where
  "str_contains [] x = (x = [])"
| "str_contains (c # cs) x = (prefix x (c # cs) \<or> str_contains cs x)"

text \<open>\<open>s.replace(old, new)\<close>: every non-overlapping occurrence, from the left.\<close>

fun replace :: "string \<Rightarrow> string \<Rightarrow> string \<Rightarrow> string" where
  "replace [] new s = new @ concat (map (\<lambda>c. c # new) s)"
| "replace (p # ps) new [] = []"
| "replace (p # ps) new (c # cs) =
     (if prefix (p # ps) (c # cs) then new @ replace (p # ps) new (drop (length ps) cs)
      else c # replace (p # ps) new cs)"


section \<open>The \<open>.str\<close> accessor of a column\<close>

text \<open>
  pandas validates a column before any \<open>.str\<close> method: a column of a numeric dtype is
  refused, and so is an object column whose non-missing values are all numbers.  An object
  column with no non-missing value, or with at least one string, is accepted.
\<close>

definition is_Str :: "cell \<Rightarrow> bool" where
  "is_Str v = (case v of Str _ \<Rightarrow> True | _ \<Rightarrow> False)"

definition str_ok :: "series \<Rightarrow> bool" where
  "str_ok s = (dtype s = Object \<and> (list_all (\<lambda>v. v = NA) (vals s) \<or> list_ex is_Str (vals s)))"

definition str_map :: "(string \<Rightarrow> string) \<Rightarrow> series \<Rightarrow> error + series" where
  "str_map f s =
     (if str_ok s
      then Inr (Series Object (map (\<lambda>v. case v of Str t \<Rightarrow> Str (f t) | _ \<Rightarrow> NA) (vals s)))
      else Inl AttributeError)"

definition str_replace :: "string \<Rightarrow> string \<Rightarrow> series \<Rightarrow> error + series" where
  "str_replace old new s = str_map (replace old new) s"

definition str_strip :: "series \<Rightarrow> error + series" where
  "str_strip s = str_map strip s"

section \<open>Company categorizer\<close>

definition categorize_company :: "cell \<Rightarrow> error + string" where
  "categorize_company org_size =
     (case org_size of
        NA \<Rightarrow> Inr ''Unknown''
      | Num n \<Rightarrow> Inl AttributeError
      | Str s \<Rightarrow>
          (let org = strip (lower s) in
           if list_ex (str_contains org) [''1-10'', ''11-50''] then Inr ''Startup''
           else if list_ex (str_contains org) [''51-200'', ''201-500''] then Inr ''Mid-sized''
           else if list_ex (str_contains org) [''500'', ''1000'', ''5000'', ''5000+'']
             then Inr ''Enterprise''
           else Inr ''Other''))"


section \<open>Age binner\<close>

definition age_bin_map :: "(string \<times> string option) list" where
  "age_bin_map =
     [(''<18'', Some ''<25''), (''18-24'', Some ''<25''), (''25-34'', Some ''25-34''),
      (''35-44'', Some ''35-44''), (''45-54'', Some ''45-54''), (''55-64'', Some ''55+''),
      (''65 or older'', Some ''55+''), (''Prefer not to say'', None)]"

text \<open>\<open>Series.map(dict)\<close>: a value that is no key of the dict becomes missing.\<close>

definition map_dict :: "(string \<times> string option) list \<Rightarrow> series \<Rightarrow> series" where
  "map_dict d s =
     Series Object
       (map (\<lambda>v. case v of
                   Str t \<Rightarrow> (case map_of d t of Some (Some b) \<Rightarrow> Str b | _ \<Rightarrow> NA)
                 | _ \<Rightarrow> NA) (vals s))"

definition clean_age_column :: "frame \<Rightarrow> string \<Rightarrow> error + frame" where
  "clean_age_column df age_col =
     bind_err (getcol df age_col) (\<lambda>a.
     bind_err (str_replace '' years old'' '''' a) (\<lambda>c1.
     let d1 = setcol df ''Age_cleaned'' c1 in
     bind_err (getcol d1 ''Age_cleaned'') (\<lambda>b.
     bind_err (str_replace ''Under '' ''<'' b) (\<lambda>c2.
     let d2 = setcol d1 ''Age_cleaned'' c2 in
     bind_err (getcol d2 ''Age_cleaned'') (\<lambda>c.
     bind_err (str_strip c) (\<lambda>c3.
     let d3 = setcol d2 ''Age_cleaned'' c3 in
     bind_err (getcol d3 ''Age_cleaned'') (\<lambda>e.
     Inr (setcol d3 ''AgeBin'' (map_dict age_bin_map e)))))))))"

text \<open>
  \<open>astype(str)\<close> on an object or float column (pandas 2): NaN becomes the text \<open>nan\<close>, a
  number its Python text, given by \<open>repr\<close>.
\<close>

definition astype_str :: "(num \<Rightarrow> string) \<Rightarrow> series \<Rightarrow> series" where
  "astype_str repr s =
     Series Object
       (map (\<lambda>v. case v of NA \<Rightarrow> Str ''nan'' | Str t \<Rightarrow> Str t | Num n \<Rightarrow> Str (repr n)) (vals s))"

definition clean_age_column_standalone :: "(num \<Rightarrow> string) \<Rightarrow> frame \<Rightarrow> string \<Rightarrow> error + frame" where
  "clean_age_column_standalone repr df age_col =
     bind_err (getcol df age_col) (\<lambda>a.
     let d0 = setcol df ''Age_cleaned'' (astype_str repr a) in
     bind_err (getcol d0 ''Age_cleaned'') (\<lambda>a0.
     bind_err (str_replace '' years old'' '''' a0) (\<lambda>c1.
     let d1 = setcol d0 ''Age_cleaned'' c1 in
     bind_err (getcol d1 ''Age_cleaned'') (\<lambda>b.
     bind_err (str_replace ''Under '' ''<'' b) (\<lambda>c2.
     let d2 = setcol d1 ''Age_cleaned'' c2 in
     bind_err (getcol d2 ''Age_cleaned'') (\<lambda>c.
     bind_err (str_strip c) (\<lambda>c3.
     let d3 = setcol d2 ''Age_cleaned'' c3 in
     bind_err (getcol d3 ''Age_cleaned'') (\<lambda>e.
     Inr (setcol d3 ''AgeBin'' (map_dict age_bin_map e))))))))))"

section \<open>Column normalizer\<close>

text \<open>
  \<open>pd.to_numeric(s, errors="coerce")\<close>: text that parses becomes its number, other text
  becomes missing.  The parser of pandas is the parameter \<open>parse\<close>.
\<close>

definition to_numeric :: "(string \<Rightarrow> num option) \<Rightarrow> series \<Rightarrow> series" where
  "to_numeric parse s =
     Series Float64
       (map (\<lambda>v. case v of
                   Str t \<Rightarrow> (case parse t of None \<Rightarrow> NA | Some n \<Rightarrow> Num n)
                 | _ \<Rightarrow> v) (vals s))"

definition default_columns :: "string list" where
  "default_columns = [''YearsCode'', ''YearsCodePro'', ''ConvertedCompYearly'', ''JobSat'']"

definition clean_numeric_columns ::
  "(string \<Rightarrow> num option) \<Rightarrow> frame \<Rightarrow> string list option \<Rightarrow> frame" where
  "clean_numeric_columns parse df columns =
     fold (\<lambda>col df_cleaned.
             case map_of df col of
               None \<Rightarrow> df_cleaned
             | Some s \<Rightarrow> setcol df_cleaned col (to_numeric parse s))
          (case columns of None \<Rightarrow> default_columns | Some cs \<Rightarrow> cs) df"

section \<open>Item tokenizer\<close>






section \<open>Row exploder\<close>



section \<open>Numeric columns\<close>

text \<open>
  A cell of a float64 column: \<open>None\<close> is NaN, the missing marker.  The order of the
  values is that of the floats: minus infinity, the finite values, plus infinity.
\<close>

definition num_key :: "num \<Rightarrow> int \<times> rat" where
  "num_key x = (case x of NInf \<Rightarrow> (- 1, 0) | Fin q \<Rightarrow> (0, q) | PInf \<Rightarrow> (1, 0))"

definition num_add :: "num \<Rightarrow> num \<Rightarrow> num option" where
  "num_add x y =
     (case (x, y) of
        (Fin a, Fin b) \<Rightarrow> Some (Fin (a + b))
      | (PInf, NInf) \<Rightarrow> None
      | (NInf, PInf) \<Rightarrow> None
      | (PInf, _) \<Rightarrow> Some PInf
      | (_, PInf) \<Rightarrow> Some PInf
      | (NInf, _) \<Rightarrow> Some NInf
      | (_, NInf) \<Rightarrow> Some NInf)"

definition num_half :: "num \<Rightarrow> num" where
  "num_half x = (case x of Fin a \<Rightarrow> Fin (a / 2) | _ \<Rightarrow> x)"

text \<open>
  Division of two float64 columns, element by element: numpy raises nothing, a finite
  non-zero value over zero is an infinity, zero over zero and infinity over infinity
  are NaN, and NaN on either side gives NaN.
\<close>

definition num_div :: "num option \<Rightarrow> num option \<Rightarrow> num option" where
  "num_div x y =
     (case (x, y) of
        (None, _) \<Rightarrow> None
      | (_, None) \<Rightarrow> None
      | (Some (Fin a), Some (Fin b)) \<Rightarrow>
          (if b = 0 then (if a = 0 then None else if 0 < a then Some PInf else Some NInf)
           else Some (Fin (a / b)))
      | (Some (Fin a), Some _) \<Rightarrow> Some (Fin 0)
      | (Some PInf, Some (Fin b)) \<Rightarrow> (if b < 0 then Some NInf else Some PInf)
      | (Some NInf, Some (Fin b)) \<Rightarrow> (if b < 0 then Some PInf else Some NInf)
      | (Some _, Some _) \<Rightarrow> None)"

text \<open>
  The median of a group skips the missing values; of none it is missing; of an even
  number it is the mean of the two middle ones.
\<close>

definition median :: "num option list \<Rightarrow> num option" where
  "median xs =
     (let ys = sort_key num_key (map the (filter (\<lambda>v. v \<noteq> None) xs)); n = length ys in
      if n = 0 then None
      else if odd n then Some (ys ! (n div 2))
      else map_option num_half (num_add (ys ! (n div 2 - 1)) (ys ! (n div 2))))"

text \<open>\<open>count\<close> of a group: the number of its values that are not missing.\<close>

definition count_notna :: "'a option list \<Rightarrow> nat" where
  "count_notna xs = length (filter (\<lambda>v. v \<noteq> None) xs)"

section \<open>Aggregator\<close>

text \<open>
  The columns of the survey table that the aggregation reads, with the types they have
  after the normalizer; a row may carry any further columns.
\<close>

record survey_row =
  ResponseId :: "int option"
  Country :: "string option"
  ConvertedCompYearly :: "num option"
  YearsCodePro :: "num option"
  JobSat :: "num option"

text \<open>
  \<open>groupby("Country")\<close>: the keys are the distinct countries that are not missing, in
  sorted order; a row with a missing country belongs to no group.
\<close>

definition group_keys :: "'a survey_row_scheme list \<Rightarrow> string list" where
  "group_keys df = sort (remdups (map the (filter (\<lambda>v. v \<noteq> None) (map Country df))))"

definition group_rows :: "'a survey_row_scheme list \<Rightarrow> string \<Rightarrow> 'a survey_row_scheme list" where
  "group_rows df c = filter (\<lambda>r. Country r = Some c) df"

record agg_row =
  CountryKey :: string
  MedianCompensation :: "num option"
  Count :: nat

record regional_row = agg_row +
  MedianExperience :: "num option"
  MedianJobSat :: "num option"

definition create_regional_stats :: "'a survey_row_scheme list \<Rightarrow> int \<Rightarrow> regional_row list" where
  "create_regional_stats df min_count =
     (let regional_stats =
        map (\<lambda>c. let g = group_rows df c in
               \<lparr>CountryKey = c,
                MedianCompensation = median (map ConvertedCompYearly g),
                Count = count_notna (map ResponseId g),
                MedianExperience = median (map YearsCodePro g),
                MedianJobSat = median (map JobSat g)\<rparr>) (group_keys df)
      in filter (\<lambda>r. min_count \<le> int (Count r)) regional_stats)"

section \<open>Joiner\<close>

record col_row =
  col_Country :: "string option"
  col_Cost_of_Living_Plus_Rent_Index :: "num option"
  col_Local_Purchasing_Power_Index :: "num option"

record merged_row = agg_row +
  Cost_of_Living_Plus_Rent_Index :: "num option"
  Local_Purchasing_Power_Index :: "num option"

record scored_row = merged_row +
  AffordabilityScore :: "num option"

definition median_comp_by_country :: "'a survey_row_scheme list \<Rightarrow> agg_row list" where
  "median_comp_by_country survey_df =
     map (\<lambda>c. let g = group_rows survey_df c in
            \<lparr>CountryKey = c,
             MedianCompensation = median (map ConvertedCompYearly g),
             Count = count_notna (map ResponseId g)\<rparr>) (group_keys survey_df)"

text \<open>
  \<open>pd.merge(left, right, on="Country", how="left")\<close>: every left row once for each
  right row with the same country, in the order of the right table; a left row without
  a match is kept once, with the right columns missing.
\<close>

definition merge_left :: "agg_row list \<Rightarrow> 'b col_row_scheme list \<Rightarrow> merged_row list" where
  "merge_left left right =
     concat (map (\<lambda>l.
       (case filter (\<lambda>r. col_Country r = Some (CountryKey l)) right of
          [] \<Rightarrow> [\<lparr>CountryKey = CountryKey l, MedianCompensation = MedianCompensation l,
                  Count = Count l,
                  Cost_of_Living_Plus_Rent_Index = None, Local_Purchasing_Power_Index = None\<rparr>]
        | ms \<Rightarrow> map (\<lambda>r. \<lparr>CountryKey = CountryKey l, MedianCompensation = MedianCompensation l,
                  Count = Count l,
                  Cost_of_Living_Plus_Rent_Index = col_Cost_of_Living_Plus_Rent_Index r,
                  Local_Purchasing_Power_Index = col_Local_Purchasing_Power_Index r\<rparr>) ms)) left)"

definition dropna_subset :: "merged_row list \<Rightarrow> merged_row list" where
  "dropna_subset merged =
     filter (\<lambda>m. Cost_of_Living_Plus_Rent_Index m \<noteq> None \<and> Local_Purchasing_Power_Index m \<noteq> None)
       merged"

definition merge_comp_col :: "'a survey_row_scheme list \<Rightarrow> 'b col_row_scheme list \<Rightarrow> scored_row list" where
  "merge_comp_col survey_df col_df =
     (let merged = merge_left (median_comp_by_country survey_df) col_df;
          merged = dropna_subset merged
      in map (\<lambda>m. \<lparr>CountryKey = CountryKey m, MedianCompensation = MedianCompensation m,
                    Count = Count m,
                    Cost_of_Living_Plus_Rent_Index = Cost_of_Living_Plus_Rent_Index m,
                    Local_Purchasing_Power_Index = Local_Purchasing_Power_Index m,
                    AffordabilityScore =
                      num_div (MedianCompensation m) (Cost_of_Living_Plus_Rent_Index m)\<rparr>) merged)"

section \<open>Top-N filter\<close>

text \<open>
  \<open>value_counts()\<close> leaves the missing values out and sorts by descending count; equal
  counts stay in the order of first occurrence here.
\<close>

definition value_counts :: "'a option list \<Rightarrow> ('a option \<times> nat) list" where
  "value_counts xs =
     (let present = filter (\<lambda>v. v \<noteq> None) xs;
          keys = rev (remdups (rev present))
      in sort_key (\<lambda>(k, n). - int n) (map (\<lambda>k. (k, count_list present k)) keys))"

text \<open>\<open>head(n)\<close>: the first \<open>n\<close> entries, or all but the last \<open>-n\<close> for a negative \<open>n\<close>.\<close>

definition head :: "int \<Rightarrow> 'a list \<Rightarrow> 'a list" where
  "head n xs = (if 0 \<le> n then take (nat n) xs else take (length xs - nat (- n)) xs)"

definition filter_top_countries :: "'a survey_row_scheme list \<Rightarrow> int \<Rightarrow> 'a survey_row_scheme list" where
  "filter_top_countries df n =
     (let top_countries = map fst (head n (value_counts (map Country df)))
      in filter (\<lambda>r. Country r \<in> set top_countries) df)"

section \<open>Default arguments\<close>

text \<open>The calls that leave the optional argument out.\<close>

definition clean_age_column_default :: "frame \<Rightarrow> error + frame" where
  "clean_age_column_default df = clean_age_column df ''Age''"

definition create_regional_stats_default :: "'a survey_row_scheme list \<Rightarrow> regional_row list" where
  "create_regional_stats_default df = create_regional_stats df 50"

section \<open>Reference definitions for the contracts\<close>



text \<open>The cleaning of one age text, the bin of one cleaned text, and the text of a cell.\<close>

definition age_clean :: "string \<Rightarrow> string" where
  "age_clean t = strip (replace ''Under '' ''<'' (replace '' years old'' '''' t))"

definition age_bin :: "string \<Rightarrow> cell" where
  "age_bin t = (case map_of age_bin_map t of Some (Some b) \<Rightarrow> Str b | _ \<Rightarrow> NA)"

definition text_of :: "(num \<Rightarrow> string) \<Rightarrow> cell \<Rightarrow> string" where
  "text_of repr v = (case v of NA \<Rightarrow> ''nan'' | Str t \<Rightarrow> t | Num n \<Rightarrow> repr n)"

section \<open>Example tables\<close>

definition survey_example :: "survey_row list" where
  "survey_example =
     [\<lparr>ResponseId = Some 1, Country = Some ''B'', ConvertedCompYearly = Some (Fin 100000),
       YearsCodePro = Some (Fin 3), JobSat = None\<rparr>,
      \<lparr>ResponseId = Some 2, Country = Some ''A'', ConvertedCompYearly = Some (Fin 5),
       YearsCodePro = None, JobSat = Some (Fin 7)\<rparr>,
      \<lparr>ResponseId = Some 3, Country = None, ConvertedCompYearly = Some (Fin 1),
       YearsCodePro = None, JobSat = None\<rparr>,
      \<lparr>ResponseId = Some 4, Country = Some ''A'', ConvertedCompYearly = None,
       YearsCodePro = None, JobSat = Some (Fin 9)\<rparr>,
      \<lparr>ResponseId = Some 5, Country = Some ''A'', ConvertedCompYearly = Some (Fin 8),
       YearsCodePro = None, JobSat = None\<rparr>,
      \<lparr>ResponseId = Some 6, Country = Some ''C'', ConvertedCompYearly = Some (Fin 1),
       YearsCodePro = None, JobSat = None\<rparr>]"

definition col_example :: "col_row list" where
  "col_example =
     [\<lparr>col_Country = Some ''B'', col_Cost_of_Living_Plus_Rent_Index = Some (Fin 80),
       col_Local_Purchasing_Power_Index = Some (Fin 60)\<rparr>,
      \<lparr>col_Country = Some ''A'', col_Cost_of_Living_Plus_Rent_Index = Some (Fin 0),
       col_Local_Purchasing_Power_Index = Some (Fin 40)\<rparr>,
      \<lparr>col_Country = Some ''D'', col_Cost_of_Living_Plus_Rent_Index = Some (Fin 30),
       col_Local_Purchasing_Power_Index = Some (Fin 20)\<rparr>]"

definition age_example :: frame where
  "age_example =
     [(''Age'', Series Object [Str ''Under 18 years old'', NA, Str ''65 or older'',
                               Str ''Prefer not to say'', Str ''25-34 years old''])]"

definition age_example_out :: frame where
  "age_example_out =
     [(''Age'', Series Object [Str ''Under 18 years old'', NA, Str ''65 or older'',
                               Str ''Prefer not to say'', Str ''25-34 years old'']),
      (''Age_cleaned'', Series Object [Str ''<18'', NA, Str ''65 or older'',
                               Str ''Prefer not to say'', Str ''25-34'']),
      (''AgeBin'', Series Object [Str ''<25'', NA, Str ''55+'', NA, Str ''25-34''])]"




section \<open>Properties of the string operations\<close>

lemma str_contains_iff: "str_contains s x \<longleftrightarrow> (\<exists>a b. s = a @ x @ b)"
proof (induction s)
  case Nil
  then show ?case by auto
next
  case (Cons c cs)
  show ?case
  proof
    assume "str_contains (c # cs) x"
    then consider "prefix x (c # cs)" | "str_contains cs x" by auto
    then show "\<exists>a b. c # cs = a @ x @ b"
    proof cases
      case 1
      then obtain b where "c # cs = x @ b" by (auto simp: prefix_def)
      then have "c # cs = [] @ x @ b" by simp
      then show ?thesis by blast
    next
      case 2
      with Cons.IH obtain a b where "cs = a @ x @ b" by blast
      then have "c # cs = (c # a) @ x @ b" by simp
      then show ?thesis by blast
    qed
  next
    assume "\<exists>a b. c # cs = a @ x @ b"
    then obtain a b where ab: "c # cs = a @ x @ b" by blast
    show "str_contains (c # cs) x"
    proof (cases a)
      case Nil
      with ab have "prefix x (c # cs)" by (simp add: prefix_def)
      then show ?thesis by simp
    next
      case (Cons a0 as)
      with ab have "cs = as @ x @ b" by simp
      with Cons.IH have "str_contains cs x" by blast
      then show ?thesis by simp
    qed
  qed
qed

lemma dropWhile_keeps:
  assumes "x \<noteq> []" "\<not> P (hd x)"
  shows "\<exists>a'. dropWhile P (a @ x @ b) = a' @ x @ b"
proof (cases "\<forall>c\<in>set a. P c")
  case True
  from assms obtain c cs where x: "x = c # cs" and "\<not> P c" by (cases x) auto
  then have "dropWhile P (x @ b) = x @ b" by simp
  with True have "dropWhile P (a @ x @ b) = [] @ x @ b" by (simp add: dropWhile_append)
  then show ?thesis by blast
next
  case False
  then have "dropWhile P (a @ x @ b) = dropWhile P a @ x @ b" by (auto simp: dropWhile_append)
  then show ?thesis by blast
qed

lemma strip_keeps:
  assumes "x \<noteq> []" "\<not> is_space (hd x)" "\<not> is_space (last x)"
  shows "\<exists>a' b'. strip (a @ x @ b) = a' @ x @ b'"
proof -
  from assms(1,2) dropWhile_keeps[where x = x and P = is_space and a = a and b = b] obtain a1 where
    1: "dropWhile is_space (a @ x @ b) = a1 @ x @ b" by blast
  have "rev x \<noteq> []" "\<not> is_space (hd (rev x))" using assms by (simp_all add: hd_rev)
  from this dropWhile_keeps[where x = "rev x" and P = is_space and a = "rev b" and b = "rev a1"] obtain b1 where
    2: "dropWhile is_space (rev b @ rev x @ rev a1) = b1 @ rev x @ rev a1" by blast
  have "strip (a @ x @ b) = a1 @ x @ rev b1" using 1 2 by (simp add: strip_def)
  then show ?thesis by blast
qed

lemma contains_201_500:
  assumes "str_contains s ''201-500''"
  shows "str_contains (strip (lower s)) ''201-500''"
proof -
  from assms obtain a b where "s = a @ ''201-500'' @ b" unfolding str_contains_iff by blast
  then have "lower s = lower a @ ''201-500'' @ lower b"
    by (simp add: lower_def char_lower_def)
  moreover have "\<exists>a' b'. strip (lower a @ ''201-500'' @ lower b) = a' @ ''201-500'' @ b'"
    by (rule strip_keeps) (simp_all add: is_space_def)
  ultimately show ?thesis unfolding str_contains_iff by metis
qed

text \<open>
  Claim C4, amended.  \<open>categorize_company\<close> is a function of its argument alone.  A missing
  input gives \<open>Unknown\<close>.  A text input is lowercased and trimmed; the result is \<open>Startup\<close>
  if that text contains \<open>1-10\<close> or \<open>11-50\<close>, else \<open>Mid-sized\<close> if it contains \<open>51-200\<close> or
  \<open>201-500\<close>, else \<open>Enterprise\<close> if it contains \<open>500\<close>, \<open>1000\<close>, \<open>5000\<close> or \<open>5000+\<close>, else
  \<open>Other\<close>.  An input that contains \<open>201-500\<close> is never \<open>Enterprise\<close>: it is \<open>Mid-sized\<close>,
  unless it also contains \<open>1-10\<close> or \<open>11-50\<close>, which make it \<open>Startup\<close>.  Every missing or
  text input gets one of the five labels.
\<close>

theorem categorize_company_cases:
  "categorize_company NA = Inr ''Unknown'' \<and>
   (\<forall>s. categorize_company (Str s) =
      Inr (if (\<exists>a b. strip (lower s) = a @ ''1-10'' @ b) \<or> (\<exists>a b. strip (lower s) = a @ ''11-50'' @ b)
             then ''Startup''
           else if (\<exists>a b. strip (lower s) = a @ ''51-200'' @ b) \<or> (\<exists>a b. strip (lower s) = a @ ''201-500'' @ b)
             then ''Mid-sized''
           else if (\<exists>a b. strip (lower s) = a @ ''500'' @ b) \<or> (\<exists>a b. strip (lower s) = a @ ''1000'' @ b)
                 \<or> (\<exists>a b. strip (lower s) = a @ ''5000'' @ b) \<or> (\<exists>a b. strip (lower s) = a @ ''5000+'' @ b)
             then ''Enterprise''
           else ''Other'')) \<and>
   (\<forall>s. (\<exists>a b. s = a @ ''201-500'' @ b) \<longrightarrow>
      categorize_company (Str s) \<noteq> Inr ''Enterprise'' \<and>
      categorize_company (Str s) =
        Inr (if (\<exists>a b. strip (lower s) = a @ ''1-10'' @ b) \<or> (\<exists>a b. strip (lower s) = a @ ''11-50'' @ b)
             then ''Startup'' else ''Mid-sized'')) \<and>
   (\<forall>v. v = NA \<or> is_Str v \<longrightarrow>
      categorize_company v \<in> Inr ` {''Unknown'', ''Startup'', ''Mid-sized'', ''Enterprise'', ''Other''})"
proof (intro conjI allI impI)
  show "categorize_company NA = Inr ''Unknown''" by (simp add: categorize_company_def)
next
  fix s
  show "categorize_company (Str s) =
      Inr (if (\<exists>a b. strip (lower s) = a @ ''1-10'' @ b) \<or> (\<exists>a b. strip (lower s) = a @ ''11-50'' @ b)
             then ''Startup''
           else if (\<exists>a b. strip (lower s) = a @ ''51-200'' @ b) \<or> (\<exists>a b. strip (lower s) = a @ ''201-500'' @ b)
             then ''Mid-sized''
           else if (\<exists>a b. strip (lower s) = a @ ''500'' @ b) \<or> (\<exists>a b. strip (lower s) = a @ ''1000'' @ b)
                 \<or> (\<exists>a b. strip (lower s) = a @ ''5000'' @ b) \<or> (\<exists>a b. strip (lower s) = a @ ''5000+'' @ b)
             then ''Enterprise''
           else ''Other'')"
    unfolding categorize_company_def Let_def list_ex_Cons_iff list_ex_Nil_iff str_contains_iff cell.case
    by (simp only: if_distrib[of Inr] simp_thms)
next
  fix s assume "\<exists>a b. s = a @ ''201-500'' @ b"
  then have "str_contains s ''201-500''" by (simp only: str_contains_iff)
  then have c: "str_contains (strip (lower s)) ''201-500''" by (rule contains_201_500)
  show "categorize_company (Str s) \<noteq> Inr ''Enterprise''"
    using c by (simp add: categorize_company_def Let_def)
  show "categorize_company (Str s) =
        Inr (if (\<exists>a b. strip (lower s) = a @ ''1-10'' @ b) \<or> (\<exists>a b. strip (lower s) = a @ ''11-50'' @ b)
             then ''Startup'' else ''Mid-sized'')"
    using c unfolding str_contains_iff[symmetric] by (simp add: categorize_company_def Let_def)
next
  fix v assume "v = NA \<or> is_Str v"
  then show "categorize_company v \<in> Inr ` {''Unknown'', ''Startup'', ''Mid-sized'', ''Enterprise'', ''Other''}"
    by (cases v) (simp_all add: categorize_company_def Let_def is_Str_def del: str_contains.simps)
qed

text \<open>Instances of C4: a plain \<open>201-500\<close> input, a \<open>Startup\<close> input and the missing input.\<close>

theorem categorize_company_cases_witness:
  "categorize_company (Str ''201-500 employees'') = Inr ''Mid-sized'' \<and>
   categorize_company (Str ''1-10 Employees'') = Inr ''Startup'' \<and>
   categorize_company NA = Inr ''Unknown''"
proof -
  have a: "\<exists>a b. ''201-500 employees'' = a @ ''201-500'' @ b"
  proof -
    have "''201-500 employees'' = '''' @ ''201-500'' @ '' employees''" by simp
    then show ?thesis by blast
  qed
  have b: "strip (lower ''201-500 employees'') = ''201-500 employees''" by code_simp
  have c: "\<not> str_contains ''201-500 employees'' ''1-10''" "\<not> str_contains ''201-500 employees'' ''11-50''" by code_simp+
  have d: "categorize_company (Str ''1-10 Employees'') = Inr ''Startup''" by code_simp
  from categorize_company_cases a
  have "categorize_company (Str ''201-500 employees'') =
        Inr (if (\<exists>a b. strip (lower ''201-500 employees'') = a @ ''1-10'' @ b) \<or> (\<exists>a b. strip (lower ''201-500 employees'') = a @ ''11-50'' @ b)
             then ''Startup'' else ''Mid-sized'')" by blast
  then have "categorize_company (Str ''201-500 employees'') = Inr ''Mid-sized''"
    using c unfolding b str_contains_iff by simp
  moreover have "categorize_company NA = Inr ''Unknown''" using categorize_company_cases by blast
  ultimately show ?thesis using d by simp
qed

text \<open>
  C4 as first stated fails: this input contains \<open>201-500\<close> and is classified \<open>Startup\<close>,
  because the \<open>Startup\<close> check runs first and finds \<open>1-10\<close>.
\<close>

theorem categorize_company_cex:
  "str_contains ''1-10 or 201-500'' ''201-500'' \<and>
   categorize_company (Str ''1-10 or 201-500'') = Inr ''Startup'' \<and>
   categorize_company (Str ''1-10 or 201-500'') \<noteq> Inr ''Mid-sized''"
proof -
  have 1: "str_contains ''1-10 or 201-500'' ''201-500''" by code_simp
  have 2: "categorize_company (Str ''1-10 or 201-500'') = Inr ''Startup''" by code_simp
  show ?thesis using 1 2 by simp
qed

section \<open>Properties of the column transforms\<close>

lemma bind_err_Inr: "bind_err m f = Inr y \<longleftrightarrow> (\<exists>x. m = Inr x \<and> f x = Inr y)"
  by (cases m) (simp_all add: bind_err_def)

lemma bind_err_simps [simp]: "bind_err (Inr x) f = f x" "bind_err (Inl e) f = Inl e"
  by (simp_all add: bind_err_def)

lemma getcol_setcol_same [simp]: "getcol (setcol df k s) k = Inr s"
  by (simp add: getcol_def setcol_def update_conv')

lemma getcol_setcol_other [simp]: "k' \<noteq> k \<Longrightarrow> getcol (setcol df k s) k' = getcol df k'"
  by (simp add: getcol_def setcol_def update_conv')

lemma setcol_setcol [simp]: "setcol (setcol df k s) k s' = setcol df k s'"
  by (simp add: setcol_def)

lemma setcol_triv: "getcol df k = Inr s \<Longrightarrow> setcol df k s = df"
  by (auto simp: getcol_def setcol_def update_triv split: option.splits)

lemma clean_age_column_unfold:
  "clean_age_column df age_col =
     bind_err (getcol df age_col) (\<lambda>a.
     bind_err (str_replace '' years old'' '''' a) (\<lambda>c1.
     bind_err (str_replace ''Under '' ''<'' c1) (\<lambda>c2.
     bind_err (str_strip c2) (\<lambda>c3.
     Inr (setcol (setcol df ''Age_cleaned'' c3) ''AgeBin'' (map_dict age_bin_map c3))))))"
  by (simp add: clean_age_column_def Let_def)

lemma clean_age_column_standalone_unfold:
  "clean_age_column_standalone repr df age_col =
     bind_err (getcol df age_col) (\<lambda>a.
     bind_err (str_replace '' years old'' '''' (astype_str repr a)) (\<lambda>c1.
     bind_err (str_replace ''Under '' ''<'' c1) (\<lambda>c2.
     bind_err (str_strip c2) (\<lambda>c3.
     Inr (setcol (setcol df ''Age_cleaned'' c3) ''AgeBin'' (map_dict age_bin_map c3))))))"
  by (simp add: clean_age_column_standalone_def Let_def)

lemma clean_age_column_idem:
  assumes "age_col \<noteq> ''Age_cleaned''" "age_col \<noteq> ''AgeBin''"
    and "clean_age_column df age_col = Inr out"
  shows "clean_age_column out age_col = Inr out"
proof -
  from assms(3) obtain a c1 c2 c3 where
    a: "getcol df age_col = Inr a" and
    c1: "str_replace '' years old'' '''' a = Inr c1" and
    c2: "str_replace ''Under '' ''<'' c1 = Inr c2" and
    c3: "str_strip c2 = Inr c3" and
    out: "out = setcol (setcol df ''Age_cleaned'' c3) ''AgeBin'' (map_dict age_bin_map c3)"
    unfolding clean_age_column_unfold bind_err_Inr by auto
  have ga: "getcol out age_col = Inr a" using assms(1,2) a by (simp add: out)
  have gc: "getcol out ''Age_cleaned'' = Inr c3" by (simp add: out)
  have gb: "getcol out ''AgeBin'' = Inr (map_dict age_bin_map c3)" by (simp add: out)
  have "clean_age_column out age_col =
      Inr (setcol (setcol out ''Age_cleaned'' c3) ''AgeBin'' (map_dict age_bin_map c3))"
    unfolding clean_age_column_unfold by (simp add: ga c1 c2 c3)
  also have "setcol out ''Age_cleaned'' c3 = out" using gc by (rule setcol_triv)
  also have "setcol out ''AgeBin'' (map_dict age_bin_map c3) = out" using gb by (rule setcol_triv)
  finally show ?thesis .
qed

lemma to_numeric_idem: "to_numeric parse (to_numeric parse s) = to_numeric parse s"
  by (auto simp: to_numeric_def split: cell.splits option.splits)

lemma fold_step_map_of:
  "map_of (fold (\<lambda>col dfc. case map_of df col of None \<Rightarrow> dfc | Some s \<Rightarrow> setcol dfc col (f s)) cs acc) k =
     (if k \<in> set cs \<and> map_of df k \<noteq> None then Some (f (the (map_of df k))) else map_of acc k)"
  by (induction cs arbitrary: acc) (auto simp: setcol_def update_conv' split: option.splits)

lemma fold_fixed: "(\<forall>c\<in>set cs. g c d = d) \<Longrightarrow> fold g cs d = d"
  by (induction cs) auto

lemma clean_numeric_columns_idem:
  "clean_numeric_columns parse (clean_numeric_columns parse df cols) cols =
   clean_numeric_columns parse df cols"
proof -
  define cs where "cs = (case cols of None \<Rightarrow> default_columns | Some cs \<Rightarrow> cs)"
  define d1 where "d1 = clean_numeric_columns parse df cols"
  have m: "map_of d1 k = map_option (to_numeric parse) (map_of df k)" if "k \<in> set cs" for k
    using that unfolding d1_def clean_numeric_columns_def cs_def[symmetric]
    by (cases "map_of df k") (simp_all add: fold_step_map_of)
  have "fold (\<lambda>col dfc. case map_of d1 col of None \<Rightarrow> dfc
                         | Some s \<Rightarrow> setcol dfc col (to_numeric parse s)) cs d1 = d1"
  proof (rule fold_fixed, rule ballI)
    fix c assume c: "c \<in> set cs"
    show "(case map_of d1 c of None \<Rightarrow> d1 | Some s \<Rightarrow> setcol d1 c (to_numeric parse s)) = d1"
      using m[OF c] by (cases "map_of df c") (simp_all add: setcol_def update_triv to_numeric_idem)
  qed
  moreover have "clean_numeric_columns parse d1 cols =
      fold (\<lambda>col dfc. case map_of d1 col of None \<Rightarrow> dfc
                         | Some s \<Rightarrow> setcol dfc col (to_numeric parse s)) cs d1"
    by (simp add: clean_numeric_columns_def cs_def)
  ultimately show ?thesis by (simp add: d1_def)
qed

text \<open>
  Claim C8.  The normalizer and the age binner are idempotent: applied to its own output,
  each returns that output.  For the binner this holds for every age column other than
  the two columns it writes, so for the default column \<open>Age\<close>; the statement is about a
  first run that returned a table.
\<close>

theorem normalizer_and_binner_idempotent:
  "clean_numeric_columns parse (clean_numeric_columns parse df cols) cols =
     clean_numeric_columns parse df cols \<and>
   (age_col \<noteq> ''Age_cleaned'' \<and> age_col \<noteq> ''AgeBin'' \<and> clean_age_column df' age_col = Inr out \<longrightarrow>
      clean_age_column out age_col = Inr out) \<and>
   (clean_age_column_default df' = Inr out' \<longrightarrow> clean_age_column_default out' = Inr out')"
proof (intro conjI impI)
  show "clean_numeric_columns parse (clean_numeric_columns parse df cols) cols =
     clean_numeric_columns parse df cols"
    by (rule clean_numeric_columns_idem)
next
  assume "age_col \<noteq> ''Age_cleaned'' \<and> age_col \<noteq> ''AgeBin'' \<and> clean_age_column df' age_col = Inr out"
  then show "clean_age_column out age_col = Inr out"
    by (intro clean_age_column_idem[of age_col df']) simp_all
next
  assume "clean_age_column_default df' = Inr out'"
  then have "clean_age_column df' ''Age'' = Inr out'" by (simp add: clean_age_column_default_def)
  then have "clean_age_column out' ''Age'' = Inr out'"
    by (intro clean_age_column_idem[of "''Age''" df']) simp_all
  then show "clean_age_column_default out' = Inr out'" by (simp add: clean_age_column_default_def)
qed

text \<open>An instance of C8: a second run of the binner on the example table changes nothing.\<close>

theorem normalizer_and_binner_idempotent_witness:
  "clean_age_column age_example ''Age'' = Inr age_example_out \<and>
   clean_age_column age_example_out ''Age'' = Inr age_example_out"
proof -
  have h: "''Age'' \<noteq> ''Age_cleaned'' \<and> ''Age'' \<noteq> ''AgeBin'' \<and>
      clean_age_column age_example ''Age'' = Inr age_example_out"
    by code_simp
  note T = normalizer_and_binner_idempotent[where age_col = "''Age''" and df' = age_example
      and out = age_example_out, THEN conjunct2, THEN conjunct1, rule_format]
  from h T[OF h] show ?thesis by (intro conjI) simp_all
qed

subsection \<open>Tokenizer\<close>







lemma str_ok_text:
  assumes "\<forall>v\<in>set xs. is_Str v"
  shows "str_ok (Series Object xs)"
proof (cases xs)
  case Nil
  then show ?thesis by (simp add: str_ok_def)
next
  case (Cons x xs')
  with assms have "is_Str x" by simp
  then show ?thesis using Cons by (simp add: str_ok_def)
qed




subsection \<open>Exploder\<close>







subsection \<open>Age binner\<close>


lemma str_map_text:
  assumes "\<forall>v\<in>set xs. is_Str v"
  shows "str_map f (Series Object xs) = Inr (Series Object (map (\<lambda>v. case v of Str t \<Rightarrow> Str (f t) | _ \<Rightarrow> NA) xs))"
  using str_ok_text[OF assms] by (simp add: str_map_def)

lemma clean_age_column_standalone_total:
  assumes "map_of df age_col = Some a"
  shows "clean_age_column_standalone repr df age_col =
     Inr (setcol (setcol df ''Age_cleaned''
            (Series Object (map (\<lambda>v. Str (age_clean (text_of repr v))) (vals a))))
          ''AgeBin'' (Series Object (map (\<lambda>v. age_bin (age_clean (text_of repr v))) (vals a))))"
proof -
  have g: "getcol df age_col = Inr a" using assms by (simp add: getcol_def)
  have a0: "astype_str repr a = Series Object (map (\<lambda>v. Str (text_of repr v)) (vals a))"
    by (auto simp: astype_str_def text_of_def split: cell.splits)
  have s1: "str_replace '' years old'' '''' (Series Object (map (\<lambda>v. Str (text_of repr v)) (vals a)))
      = Inr (Series Object (map (\<lambda>v. Str (replace '' years old'' '''' (text_of repr v))) (vals a)))"
    unfolding str_replace_def by (subst str_map_text) (auto simp: is_Str_def)
  have s2: "str_replace ''Under '' ''<'' (Series Object (map (\<lambda>v. Str (replace '' years old'' '''' (text_of repr v))) (vals a)))
      = Inr (Series Object (map (\<lambda>v. Str (replace ''Under '' ''<'' (replace '' years old'' '''' (text_of repr v)))) (vals a)))"
    unfolding str_replace_def by (subst str_map_text) (auto simp: is_Str_def)
  have s3: "str_strip (Series Object (map (\<lambda>v. Str (replace ''Under '' ''<'' (replace '' years old'' '''' (text_of repr v)))) (vals a)))
      = Inr (Series Object (map (\<lambda>v. Str (age_clean (text_of repr v))) (vals a)))"
    unfolding str_strip_def by (subst str_map_text) (auto simp: is_Str_def age_clean_def)
  have m: "map_dict age_bin_map (Series Object (map (\<lambda>v. Str (age_clean (text_of repr v))) (vals a)))
      = Series Object (map (\<lambda>v. age_bin (age_clean (text_of repr v))) (vals a))"
    by (simp add: map_dict_def age_bin_def)
  show ?thesis
    unfolding clean_age_column_standalone_unfold by (simp add: g a0 s1 s2 s3 m)
qed

lemma clean_age_column_on_text:
  assumes "map_of df age_col = Some a" "str_ok a"
  shows "clean_age_column df age_col =
     Inr (setcol (setcol df ''Age_cleaned''
            (Series Object (map (\<lambda>v. case v of Str t \<Rightarrow> Str (age_clean t) | _ \<Rightarrow> NA) (vals a))))
          ''AgeBin'' (Series Object (map (\<lambda>v. case v of Str t \<Rightarrow> age_bin (age_clean t) | _ \<Rightarrow> NA) (vals a))))"
proof -
  have g: "getcol df age_col = Inr a" using assms by (simp add: getcol_def)
  have ok: "str_ok (Series Object (map (\<lambda>v. case v of Str t \<Rightarrow> Str (f t) | _ \<Rightarrow> NA) xs))"
    if "list_all (\<lambda>v. v = NA) xs \<or> list_ex is_Str xs" for f xs
    using that by (auto simp: str_ok_def list_all_iff list_ex_iff is_Str_def split: cell.splits)
  have pres: "list_all (\<lambda>v. v = NA) (map (\<lambda>v. case v of Str t \<Rightarrow> Str (f t) | _ \<Rightarrow> NA) xs) \<or>
              list_ex is_Str (map (\<lambda>v. case v of Str t \<Rightarrow> Str (f t) | _ \<Rightarrow> NA) xs)"
    if "list_all (\<lambda>v. v = NA) xs \<or> list_ex is_Str xs" for f xs
    using that by (auto simp: list_all_iff list_ex_iff is_Str_def split: cell.splits)
  have a: "list_all (\<lambda>v. v = NA) (vals a) \<or> list_ex is_Str (vals a)" using assms(2) by (simp add: str_ok_def)
  define x1 where "x1 = map (\<lambda>v. case v of Str t \<Rightarrow> Str (replace '' years old'' '''' t) | _ \<Rightarrow> NA) (vals a)"
  define x2 where "x2 = map (\<lambda>v. case v of Str t \<Rightarrow> Str (replace ''Under '' ''<'' t) | _ \<Rightarrow> NA) x1"
  define x3 where "x3 = map (\<lambda>v. case v of Str t \<Rightarrow> Str (strip t) | _ \<Rightarrow> NA) x2"
  have s1: "str_replace '' years old'' '''' a = Inr (Series Object x1)"
    using assms(2) by (simp add: str_replace_def str_map_def x1_def)
  have p1: "list_all (\<lambda>v. v = NA) x1 \<or> list_ex is_Str x1" unfolding x1_def using a by (rule pres)
  have s2: "str_replace ''Under '' ''<'' (Series Object x1) = Inr (Series Object x2)"
    using p1 by (simp add: str_replace_def str_map_def x2_def str_ok_def)
  have p2: "list_all (\<lambda>v. v = NA) x2 \<or> list_ex is_Str x2" unfolding x2_def using p1 by (rule pres)
  have s3: "str_strip (Series Object x2) = Inr (Series Object x3)"
    using p2 by (simp add: str_strip_def str_map_def x3_def str_ok_def)
  have x3: "x3 = map (\<lambda>v. case v of Str t \<Rightarrow> Str (age_clean t) | _ \<Rightarrow> NA) (vals a)"
    by (auto simp: x3_def x2_def x1_def age_clean_def split: cell.splits)
  have m: "map_dict age_bin_map (Series Object x3) =
      Series Object (map (\<lambda>v. case v of Str t \<Rightarrow> age_bin (age_clean t) | _ \<Rightarrow> NA) (vals a))"
    by (auto simp: map_dict_def x3 age_bin_def split: cell.splits)
  show ?thesis
    unfolding clean_age_column_unfold by (simp add: g s1 s2 s3 m) (simp add: x3)
qed

lemma age_bin_examples:
  "age_clean ''Under 18'' = ''<18''" "age_bin ''<18'' = Str ''<25''"
  "age_clean ''Under 18 years old'' = ''<18''"
  "age_bin (age_clean ''65 or older'') = Str ''55+''"
  "age_bin (age_clean ''Prefer not to say'') = NA"
  by code_simp+

lemma age_bin_unlisted: "t \<notin> fst ` set age_bin_map \<Longrightarrow> age_bin t = NA"
  by (simp add: age_bin_def map_of_eq_None_iff[symmetric] del: map_of_eq_None_iff)

text \<open>
  Claim C5 asks that values of the age column that are not text be made text before the
  string operations, so that these never fail.  \<open>clean_age_column\<close> of the module does
  not do so: on an age column that is all missing (float64) it raises, and a missing
  value among texts stays missing in the cleaned column.  The copy in the standalone
  script converts first and returns a table on both inputs.
\<close>

theorem clean_age_column_not_coerced:
  "clean_age_column [(''Age'', Series Float64 [NA, NA])] ''Age'' = Inl AttributeError \<and>
   clean_age_column_standalone repr [(''Age'', Series Float64 [NA, NA])] ''Age'' =
     Inr [(''Age'', Series Float64 [NA, NA]),
          (''Age_cleaned'', Series Object [Str ''nan'', Str ''nan'']),
          (''AgeBin'', Series Object [NA, NA])] \<and>
   clean_age_column [(''Age'', Series Object [Str ''Under 18'', NA])] ''Age'' =
     Inr [(''Age'', Series Object [Str ''Under 18'', NA]),
          (''Age_cleaned'', Series Object [Str ''<18'', NA]),
          (''AgeBin'', Series Object [Str ''<25'', NA])] \<and>
   clean_age_column_standalone repr [(''Age'', Series Object [Str ''Under 18'', NA])] ''Age'' =
     Inr [(''Age'', Series Object [Str ''Under 18'', NA]),
          (''Age_cleaned'', Series Object [Str ''<18'', Str ''nan'']),
          (''AgeBin'', Series Object [Str ''<25'', NA])]"
proof -
  have ok: "str_ok (Series Object [Str ''Under 18'', NA])" "str_ok (Series Object [Str ''Under 18'', Str ''nan''])"
    "\<not> str_ok (Series Float64 [NA, NA])" "str_ok (Series Object [Str ''nan'', Str ''nan''])"
    by (simp_all add: str_ok_def is_Str_def)
  have c: "age_clean ''Under 18'' = ''<18''" "age_clean ''nan'' = ''nan''" by code_simp+
  have b: "age_bin ''<18'' = Str ''<25''" "age_bin ''nan'' = NA" by code_simp+
  have 1: "clean_age_column [(''Age'', Series Float64 [NA, NA])] ''Age'' = Inl AttributeError"
    unfolding clean_age_column_unfold using ok(3)
    by (simp add: getcol_def str_replace_def str_map_def)
  have 2: "clean_age_column_standalone repr [(''Age'', Series Float64 [NA, NA])] ''Age'' =
     Inr [(''Age'', Series Float64 [NA, NA]),
          (''Age_cleaned'', Series Object [Str ''nan'', Str ''nan'']),
          (''AgeBin'', Series Object [NA, NA])]"
    by (subst clean_age_column_standalone_total[of _ _ "Series Float64 [NA, NA]"])
       (simp_all add: text_of_def c b setcol_def)
  have 3: "clean_age_column [(''Age'', Series Object [Str ''Under 18'', NA])] ''Age'' =
     Inr [(''Age'', Series Object [Str ''Under 18'', NA]),
          (''Age_cleaned'', Series Object [Str ''<18'', NA]),
          (''AgeBin'', Series Object [Str ''<25'', NA])]"
    by (subst clean_age_column_on_text[of _ _ "Series Object [Str ''Under 18'', NA]"])
       (simp_all add: ok c b setcol_def)
  have 4: "clean_age_column_standalone repr [(''Age'', Series Object [Str ''Under 18'', NA])] ''Age'' =
     Inr [(''Age'', Series Object [Str ''Under 18'', NA]),
          (''Age_cleaned'', Series Object [Str ''<18'', Str ''nan'']),
          (''AgeBin'', Series Object [Str ''<25'', NA])]"
    by (subst clean_age_column_standalone_total[of _ _ "Series Object [Str ''Under 18'', NA]"])
       (simp_all add: text_of_def c b setcol_def)
  from 1 2 3 4 show ?thesis by (intro conjI)
qed

subsection \<open>The standalone copies\<close>





section \<open>Properties of the aggregator, the joiner and the top-N filter\<close>

lemma set_group_keys: "set (group_keys df) = {c. Some c \<in> Country ` set df}"
proof -
  have "the ` {v \<in> Country ` set df. v \<noteq> None} = {c. Some c \<in> Country ` set df}"
  proof (intro set_eqI iffI)
    fix c assume "c \<in> the ` {v \<in> Country ` set df. v \<noteq> None}"
    then obtain v where "v \<in> Country ` set df" "v \<noteq> None" "c = the v" by blast
    then show "c \<in> {c. Some c \<in> Country ` set df}" by (cases v) simp_all
  next
    fix c assume "c \<in> {c. Some c \<in> Country ` set df}"
    then have "Some c \<in> {v \<in> Country ` set df. v \<noteq> None}" by simp
    then have "the (Some c) \<in> the ` {v \<in> Country ` set df. v \<noteq> None}" by (rule imageI)
    then show "c \<in> the ` {v \<in> Country ` set df. v \<noteq> None}" by simp
  qed
  then show ?thesis by (simp add: group_keys_def)
qed

lemma distinct_group_keys: "distinct (group_keys df)"
  by (simp add: group_keys_def)

lemma sorted_group_keys: "sorted (group_keys df)"
  by (simp add: group_keys_def)

lemma count_group:
  "count_notna (map ResponseId (group_rows df c)) =
     length (filter (\<lambda>x. Country x = Some c \<and> ResponseId x \<noteq> None) df)"
  by (simp add: count_notna_def group_rows_def filter_map comp_def conj_commute)

lemma count_distinct_ids:
  assumes "distinct (map ResponseId (filter (\<lambda>x. ResponseId x \<noteq> None) df))"
  shows "length (filter (\<lambda>x. Country x = Some c \<and> ResponseId x \<noteq> None) df) =
     card (ResponseId ` {x \<in> set df. Country x = Some c \<and> ResponseId x \<noteq> None})"
proof -
  let ?g = "filter (\<lambda>x. Country x = Some c) (filter (\<lambda>x. ResponseId x \<noteq> None) df)"
  have g: "?g = filter (\<lambda>x. Country x = Some c \<and> ResponseId x \<noteq> None) df"
    by (simp add: conj_commute)
  have "distinct (map ResponseId ?g)" using assms by (rule distinct_map_filter)
  then have "card (set (map ResponseId ?g)) = length (map ResponseId ?g)" by (rule distinct_card)
  then have "card (ResponseId ` set ?g) = length ?g" by simp
  moreover have "set ?g = {x \<in> set df. Country x = Some c \<and> ResponseId x \<noteq> None}" by auto
  ultimately show ?thesis unfolding g by simp
qed

lemma median_skips_missing: "median xs = median (filter (\<lambda>v. v \<noteq> None) xs)"
  by (simp add: median_def)

lemma median_all_missing: "\<forall>v\<in>set xs. v = None \<Longrightarrow> median xs = None"
proof -
  assume "\<forall>v\<in>set xs. v = None"
  then have "filter (\<lambda>v. v \<noteq> None) xs = []" by (simp add: filter_empty_conv)
  then show ?thesis by (simp add: median_def)
qed

lemma num_key_inj: "inj num_key"
  by (auto simp: inj_def num_key_def split: num.splits)

lemma present_values: "map the (filter (\<lambda>v. v \<noteq> None) (map Some ys)) = ys"
  by (induction ys) simp_all

lemma median_perm:
  assumes "mset xs = mset ys"
  shows "median xs = median ys"
proof -
  define px where "px = map the (filter (\<lambda>v. v \<noteq> None) xs)"
  define py where "py = map the (filter (\<lambda>v. v \<noteq> None) ys)"
  have "mset px = mset py"
    unfolding px_def py_def using assms by (metis mset_filter mset_map)
  then have m: "mset px = mset (sort_key num_key py)" by simp
  have i: "inj_on num_key (set px)" using num_key_inj by (rule inj_on_subset) simp
  have s: "sorted (map num_key (sort_key num_key py))" by simp
  have "sort_key num_key px = sort_key num_key py" using m i s by (rule sort_key_inj_key_eq)
  then show ?thesis by (simp add: median_def px_def py_def)
qed

lemma median_sorted_odd:
  assumes "sorted (map num_key ys)" "odd (length ys)"
  shows "median (map Some ys) = Some (ys ! (length ys div 2))"
proof -
  have "sort_key num_key ys = ys" using assms(1) by (rule sort_key_id_if_sorted)
  moreover have "length ys \<noteq> 0" using assms(2) by (cases ys) simp_all
  ultimately show ?thesis using assms(2) by (simp add: median_def present_values Let_def)
qed

lemma median_sorted_even:
  assumes "sorted (map num_key ys)" "even (length ys)" "ys \<noteq> []"
  shows "median (map Some ys) =
     map_option num_half (num_add (ys ! (length ys div 2 - 1)) (ys ! (length ys div 2)))"
proof -
  have "sort_key num_key ys = ys" using assms(1) by (rule sort_key_id_if_sorted)
  then show ?thesis using assms(2,3) by (simp add: median_def present_values Let_def)
qed

lemma regional_keys:
  "map CountryKey (create_regional_stats df mc) =
     filter (\<lambda>c. mc \<le> int (length (filter (\<lambda>x. Country x = Some c \<and> ResponseId x \<noteq> None) df)))
       (group_keys df)"
  by (simp add: create_regional_stats_def Let_def filter_map comp_def count_group)

lemma regional_row:
  assumes "r \<in> set (create_regional_stats df mc)"
  shows "CountryKey r \<in> set (group_keys df) \<and>
     Count r = length (filter (\<lambda>x. Country x = Some (CountryKey r) \<and> ResponseId x \<noteq> None) df) \<and>
     MedianCompensation r = median (map ConvertedCompYearly (filter (\<lambda>x. Country x = Some (CountryKey r)) df)) \<and>
     MedianExperience r = median (map YearsCodePro (filter (\<lambda>x. Country x = Some (CountryKey r)) df)) \<and>
     MedianJobSat r = median (map JobSat (filter (\<lambda>x. Country x = Some (CountryKey r)) df)) \<and>
     mc \<le> int (Count r)"
proof -
  from assms obtain c where c: "c \<in> set (group_keys df)" and
    r: "r = \<lparr>CountryKey = c,
                MedianCompensation = median (map ConvertedCompYearly (group_rows df c)),
                Count = count_notna (map ResponseId (group_rows df c)),
                MedianExperience = median (map YearsCodePro (group_rows df c)),
                MedianJobSat = median (map JobSat (group_rows df c))\<rparr>" and
    m: "mc \<le> int (Count r)"
    by (auto simp: create_regional_stats_def Let_def)
  have "Count r = length (filter (\<lambda>x. Country x = Some c \<and> ResponseId x \<noteq> None) df)"
    unfolding r using count_group[of df c] by simp
  then show ?thesis using c m by (simp add: r group_rows_def)
qed

text \<open>
  Claim C3.  \<open>create_regional_stats\<close> groups the rows by country.  Every row of the result
  is a country of the table, with the number of respondent identifiers of its group as
  \<open>Count\<close> and the medians of compensation, professional years and job satisfaction of
  its group; no country appears twice; a country whose count reaches \<open>min_count\<close> is in
  the result and one whose count is below it (below 50 with the default) is absent.
  When the identifiers of the table are pairwise different, the count is the number of
  distinct identifiers of the group.
  The median is taken over the values that are not missing, in any order: the middle one
  of an odd number, the mean of the two middle ones of an even number, missing when all
  are missing.  The median of 1, 2, 3 is 2 and so is that of 1, missing, 3.
\<close>

theorem create_regional_stats_spec:
  "(\<forall>r\<in>set (create_regional_stats df min_count).
      Some (CountryKey r) \<in> Country ` set df \<and>
      Count r = length (filter (\<lambda>x. Country x = Some (CountryKey r) \<and> ResponseId x \<noteq> None) df) \<and>
      MedianCompensation r = median (map ConvertedCompYearly (filter (\<lambda>x. Country x = Some (CountryKey r)) df)) \<and>
      MedianExperience r = median (map YearsCodePro (filter (\<lambda>x. Country x = Some (CountryKey r)) df)) \<and>
      MedianJobSat r = median (map JobSat (filter (\<lambda>x. Country x = Some (CountryKey r)) df)) \<and>
      min_count \<le> int (Count r)) \<and>
   (distinct (map ResponseId (filter (\<lambda>x. ResponseId x \<noteq> None) df)) \<longrightarrow>
      (\<forall>r\<in>set (create_regional_stats df min_count).
         Count r = card (ResponseId ` {x \<in> set df. Country x = Some (CountryKey r) \<and> ResponseId x \<noteq> None}))) \<and>
   distinct (map CountryKey (create_regional_stats df min_count)) \<and>
   sorted (map CountryKey (create_regional_stats df min_count)) \<and>
   (\<forall>c. Some c \<in> Country ` set df \<and>
        min_count \<le> int (length (filter (\<lambda>x. Country x = Some c \<and> ResponseId x \<noteq> None) df)) \<longrightarrow>
        c \<in> CountryKey ` set (create_regional_stats df min_count)) \<and>
   (\<forall>c. int (length (filter (\<lambda>x. Country x = Some c \<and> ResponseId x \<noteq> None) df)) < min_count \<longrightarrow>
        c \<notin> CountryKey ` set (create_regional_stats df min_count)) \<and>
   (\<forall>c. int (length (filter (\<lambda>x. Country x = Some c \<and> ResponseId x \<noteq> None) df)) < 50 \<longrightarrow>
        c \<notin> CountryKey ` set (create_regional_stats_default df)) \<and>
   (\<forall>xs. median xs = median (filter (\<lambda>v. v \<noteq> None) xs)) \<and>
   (\<forall>xs. (\<forall>v\<in>set xs. v = None) \<longrightarrow> median xs = None) \<and>
   (\<forall>xs ys. mset xs = mset ys \<longrightarrow> median xs = median ys) \<and>
   (\<forall>ys. sorted (map num_key ys) \<and> odd (length ys) \<longrightarrow>
        median (map Some ys) = Some (ys ! (length ys div 2))) \<and>
   (\<forall>ys. sorted (map num_key ys) \<and> even (length ys) \<and> ys \<noteq> [] \<longrightarrow>
        median (map Some ys) =
          map_option num_half (num_add (ys ! (length ys div 2 - 1)) (ys ! (length ys div 2)))) \<and>
   median [Some (Fin 1), Some (Fin 2), Some (Fin 3)] = Some (Fin 2) \<and>
   median [Some (Fin 1), None, Some (Fin 3)] = Some (Fin 2)"
proof (intro conjI allI impI ballI)
  fix r assume r: "r \<in> set (create_regional_stats df min_count)"
  note R = regional_row[OF r]
  from R show "Some (CountryKey r) \<in> Country ` set df" by (simp add: set_group_keys)
  from R show "Count r = length (filter (\<lambda>x. Country x = Some (CountryKey r) \<and> ResponseId x \<noteq> None) df)" by blast
  from R show "MedianCompensation r = median (map ConvertedCompYearly (filter (\<lambda>x. Country x = Some (CountryKey r)) df))" by blast
  from R show "MedianExperience r = median (map YearsCodePro (filter (\<lambda>x. Country x = Some (CountryKey r)) df))" by blast
  from R show "MedianJobSat r = median (map JobSat (filter (\<lambda>x. Country x = Some (CountryKey r)) df))" by blast
  from R show "min_count \<le> int (Count r)" by blast
next
  fix r
  assume d: "distinct (map ResponseId (filter (\<lambda>x. ResponseId x \<noteq> None) df))"
    and r: "r \<in> set (create_regional_stats df min_count)"
  from regional_row[OF r]
  have "Count r = length (filter (\<lambda>x. Country x = Some (CountryKey r) \<and> ResponseId x \<noteq> None) df)"
    by blast
  also have "\<dots> = card (ResponseId ` {x \<in> set df. Country x = Some (CountryKey r) \<and> ResponseId x \<noteq> None})"
    using d by (rule count_distinct_ids)
  finally show "Count r = card (ResponseId ` {x \<in> set df. Country x = Some (CountryKey r) \<and> ResponseId x \<noteq> None})" .
next
  show "distinct (map CountryKey (create_regional_stats df min_count))"
    by (simp add: regional_keys distinct_group_keys)
  show "sorted (map CountryKey (create_regional_stats df min_count))"
    using sorted_filter[of "\<lambda>c. c" "group_keys df"] by (simp add: regional_keys sorted_group_keys)
next
  fix c
  assume "Some c \<in> Country ` set df \<and>
        min_count \<le> int (length (filter (\<lambda>x. Country x = Some c \<and> ResponseId x \<noteq> None) df))"
  then have "c \<in> set (map CountryKey (create_regional_stats df min_count))"
    unfolding regional_keys by (simp add: set_group_keys)
  then show "c \<in> CountryKey ` set (create_regional_stats df min_count)" by simp
next
  fix c
  assume "int (length (filter (\<lambda>x. Country x = Some c \<and> ResponseId x \<noteq> None) df)) < min_count"
  then have "c \<notin> set (map CountryKey (create_regional_stats df min_count))"
    unfolding regional_keys by simp
  then show "c \<notin> CountryKey ` set (create_regional_stats df min_count)" by simp
next
  fix c
  assume "int (length (filter (\<lambda>x. Country x = Some c \<and> ResponseId x \<noteq> None) df)) < 50"
  then have "c \<notin> set (map CountryKey (create_regional_stats df 50))"
    unfolding regional_keys by simp
  then show "c \<notin> CountryKey ` set (create_regional_stats_default df)"
    by (simp add: create_regional_stats_default_def)
next
  fix xs ys :: "num option list" assume "mset xs = mset ys"
  then show "median xs = median ys" by (rule median_perm)
next
  fix ys assume "sorted (map num_key ys) \<and> odd (length ys)"
  then show "median (map Some ys) = Some (ys ! (length ys div 2))"
    by (intro median_sorted_odd) simp_all
next
  fix ys assume "sorted (map num_key ys) \<and> even (length ys) \<and> ys \<noteq> []"
  then show "median (map Some ys) =
          map_option num_half (num_add (ys ! (length ys div 2 - 1)) (ys ! (length ys div 2)))"
    by (intro median_sorted_even) simp_all
next
  fix xs show "median xs = median (filter (\<lambda>v. v \<noteq> None) xs)" by (rule median_skips_missing)
next
  fix xs :: "num option list" assume "\<forall>v\<in>set xs. v = None"
  then show "median xs = None" by (rule median_all_missing)
next
  show "median [Some (Fin 1), Some (Fin 2), Some (Fin 3)] = Some (Fin 2)" by code_simp
  show "median [Some (Fin 1), None, Some (Fin 3)] = Some (Fin 2)" by code_simp
qed

text \<open>An instance of C3 with threshold 2: country B has one row and is absent.\<close>

theorem create_regional_stats_spec_witness:
  "''B'' \<notin> CountryKey ` set (create_regional_stats survey_example 2) \<and>
   ''A'' \<in> CountryKey ` set (create_regional_stats survey_example 2) \<and>
   create_regional_stats survey_example 2 =
     [\<lparr>CountryKey = ''A'', MedianCompensation = Some (Fin (13 / 2)), Count = 3,
       MedianExperience = None, MedianJobSat = Some (Fin 8)\<rparr>]"
proof -
  have 1: "int (length (filter (\<lambda>x. Country x = Some ''B'' \<and> ResponseId x \<noteq> None) survey_example)) < 2"
    by (simp add: survey_example_def)
  have 2: "Some ''A'' \<in> Country ` set survey_example \<and>
        2 \<le> int (length (filter (\<lambda>x. Country x = Some ''A'' \<and> ResponseId x \<noteq> None) survey_example))"
    by (simp add: survey_example_def)
  have 3: "create_regional_stats survey_example 2 =
     [\<lparr>CountryKey = ''A'', MedianCompensation = Some (Fin (13 / 2)), Count = 3,
       MedianExperience = None, MedianJobSat = Some (Fin 8)\<rparr>]" by code_simp
  note T = create_regional_stats_spec[of survey_example 2]
  note present = T[THEN conjunct2, THEN conjunct2, THEN conjunct2, THEN conjunct2, THEN conjunct1,
      rule_format]
  note absent = T[THEN conjunct2, THEN conjunct2, THEN conjunct2, THEN conjunct2, THEN conjunct2,
      THEN conjunct1, rule_format]
  from absent[OF 1] present[OF 2] 3 show ?thesis by (intro conjI)
qed

subsection \<open>Joiner\<close>

lemma merge_left_mem:
  assumes "m \<in> set (merge_left L R)"
  shows "\<exists>l\<in>set L. CountryKey m = CountryKey l \<and> MedianCompensation m = MedianCompensation l \<and>
       ((Cost_of_Living_Plus_Rent_Index m = None \<and> Local_Purchasing_Power_Index m = None) \<or>
        (\<exists>r\<in>set R. col_Country r = Some (CountryKey l) \<and>
            Cost_of_Living_Plus_Rent_Index m = col_Cost_of_Living_Plus_Rent_Index r \<and>
            Local_Purchasing_Power_Index m = col_Local_Purchasing_Power_Index r))"
proof -
  from assms obtain l where l: "l \<in> set L" and
    m: "m \<in> set (case filter (\<lambda>r. col_Country r = Some (CountryKey l)) R of
          [] \<Rightarrow> [\<lparr>CountryKey = CountryKey l, MedianCompensation = MedianCompensation l,
                  Count = Count l,
                  Cost_of_Living_Plus_Rent_Index = None, Local_Purchasing_Power_Index = None\<rparr>]
        | ms \<Rightarrow> map (\<lambda>r. \<lparr>CountryKey = CountryKey l, MedianCompensation = MedianCompensation l,
                  Count = Count l,
                  Cost_of_Living_Plus_Rent_Index = col_Cost_of_Living_Plus_Rent_Index r,
                  Local_Purchasing_Power_Index = col_Local_Purchasing_Power_Index r\<rparr>) ms)"
    by (auto simp: merge_left_def)
  show ?thesis
  proof (cases "filter (\<lambda>r. col_Country r = Some (CountryKey l)) R")
    case Nil
    with m l show ?thesis by auto
  next
    case (Cons r0 rs)
    with m obtain r where "r \<in> set (filter (\<lambda>r. col_Country r = Some (CountryKey l)) R)"
      and "m = \<lparr>CountryKey = CountryKey l, MedianCompensation = MedianCompensation l,
                  Count = Count l,
                  Cost_of_Living_Plus_Rent_Index = col_Cost_of_Living_Plus_Rent_Index r,
                  Local_Purchasing_Power_Index = col_Local_Purchasing_Power_Index r\<rparr>"
      by auto
    with l show ?thesis by auto
  qed
qed

lemma merge_left_matched:
  assumes "l \<in> set L" "r \<in> set R" "col_Country r = Some (CountryKey l)"
  shows "\<lparr>CountryKey = CountryKey l, MedianCompensation = MedianCompensation l, Count = Count l,
          Cost_of_Living_Plus_Rent_Index = col_Cost_of_Living_Plus_Rent_Index r,
          Local_Purchasing_Power_Index = col_Local_Purchasing_Power_Index r\<rparr> \<in> set (merge_left L R)"
proof -
  have r: "r \<in> set (filter (\<lambda>r. col_Country r = Some (CountryKey l)) R)" using assms by simp
  then obtain r0 rs where ne: "filter (\<lambda>r. col_Country r = Some (CountryKey l)) R = r0 # rs"
    by (cases "filter (\<lambda>r. col_Country r = Some (CountryKey l)) R") auto
  show ?thesis
    unfolding merge_left_def set_concat set_map
    apply (rule UN_I[OF imageI[OF assms(1)]])
    using r unfolding ne by auto
qed

lemma median_comp_row:
  assumes "l \<in> set (median_comp_by_country s)"
  shows "Some (CountryKey l) \<in> Country ` set s \<and>
     MedianCompensation l = median (map ConvertedCompYearly (filter (\<lambda>x. Country x = Some (CountryKey l)) s))"
  using assms by (auto simp: median_comp_by_country_def Let_def group_rows_def set_group_keys)

lemma merge_comp_col_mem:
  assumes "m \<in> set (merge_comp_col s c)"
  shows "Some (CountryKey m) \<in> Country ` set s \<and>
     MedianCompensation m = median (map ConvertedCompYearly (filter (\<lambda>x. Country x = Some (CountryKey m)) s)) \<and>
     (\<exists>r\<in>set c. col_Country r = Some (CountryKey m) \<and>
          Cost_of_Living_Plus_Rent_Index m = col_Cost_of_Living_Plus_Rent_Index r \<and>
          Local_Purchasing_Power_Index m = col_Local_Purchasing_Power_Index r) \<and>
     Cost_of_Living_Plus_Rent_Index m \<noteq> None \<and> Local_Purchasing_Power_Index m \<noteq> None \<and>
     AffordabilityScore m = num_div (MedianCompensation m) (Cost_of_Living_Plus_Rent_Index m)"
proof -
  from assms obtain m0 where m0: "m0 \<in> set (merge_left (median_comp_by_country s) c)"
    and nn: "Cost_of_Living_Plus_Rent_Index m0 \<noteq> None" "Local_Purchasing_Power_Index m0 \<noteq> None"
    and m: "m = \<lparr>CountryKey = CountryKey m0, MedianCompensation = MedianCompensation m0,
                    Count = Count m0,
                    Cost_of_Living_Plus_Rent_Index = Cost_of_Living_Plus_Rent_Index m0,
                    Local_Purchasing_Power_Index = Local_Purchasing_Power_Index m0,
                    AffordabilityScore =
                      num_div (MedianCompensation m0) (Cost_of_Living_Plus_Rent_Index m0)\<rparr>"
    by (auto simp: merge_comp_col_def dropna_subset_def Let_def)
  from merge_left_mem[OF m0] nn obtain l r where
    l: "l \<in> set (median_comp_by_country s)" "CountryKey m0 = CountryKey l"
       "MedianCompensation m0 = MedianCompensation l"
    and r: "r \<in> set c" "col_Country r = Some (CountryKey l)"
       "Cost_of_Living_Plus_Rent_Index m0 = col_Cost_of_Living_Plus_Rent_Index r"
       "Local_Purchasing_Power_Index m0 = col_Local_Purchasing_Power_Index r"
    by auto
  from median_comp_row[OF l(1)] l r nn show ?thesis by (auto simp: m)
qed

text \<open>
  Claim C2.  Every row returned by \<open>merge_comp_col\<close> has both index values present, and a
  country of the survey rows with no row of that country in the cost-of-living table is
  in no row of the result; a country of the survey rows with a cost-of-living row that
  has both values is in the result.
\<close>

theorem merge_comp_col_inner_join:
  "(\<forall>m\<in>set (merge_comp_col survey_df col_df).
      Cost_of_Living_Plus_Rent_Index m \<noteq> None \<and> Local_Purchasing_Power_Index m \<noteq> None) \<and>
   (\<forall>k. Some k \<in> Country ` set survey_df \<and> Some k \<notin> col_Country ` set col_df \<longrightarrow>
      k \<notin> CountryKey ` set (merge_comp_col survey_df col_df)) \<and>
   (\<forall>k. Some k \<in> Country ` set survey_df \<and>
        (\<exists>r\<in>set col_df. col_Country r = Some k \<and> col_Cost_of_Living_Plus_Rent_Index r \<noteq> None \<and>
            col_Local_Purchasing_Power_Index r \<noteq> None) \<longrightarrow>
      k \<in> CountryKey ` set (merge_comp_col survey_df col_df))"
proof (intro conjI allI impI ballI)
  fix m assume "m \<in> set (merge_comp_col survey_df col_df)"
  from merge_comp_col_mem[OF this]
  show "Cost_of_Living_Plus_Rent_Index m \<noteq> None" "Local_Purchasing_Power_Index m \<noteq> None" by blast+
next
  fix k assume k: "Some k \<in> Country ` set survey_df \<and> Some k \<notin> col_Country ` set col_df"
  show "k \<notin> CountryKey ` set (merge_comp_col survey_df col_df)"
  proof
    assume "k \<in> CountryKey ` set (merge_comp_col survey_df col_df)"
    then obtain m where "m \<in> set (merge_comp_col survey_df col_df)" "CountryKey m = k" by auto
    with merge_comp_col_mem[of m survey_df col_df] obtain r where "r \<in> set col_df" "col_Country r = Some k"
      by auto
    then have "Some k \<in> col_Country ` set col_df" by (metis imageI)
    with k show False by simp
  qed
next
  fix k assume k: "Some k \<in> Country ` set survey_df \<and>
        (\<exists>r\<in>set col_df. col_Country r = Some k \<and> col_Cost_of_Living_Plus_Rent_Index r \<noteq> None \<and>
            col_Local_Purchasing_Power_Index r \<noteq> None)"
  then obtain r where r: "r \<in> set col_df" "col_Country r = Some k"
    "col_Cost_of_Living_Plus_Rent_Index r \<noteq> None" "col_Local_Purchasing_Power_Index r \<noteq> None" by blast
  from k have "k \<in> set (group_keys survey_df)" by (simp add: set_group_keys)
  then have "k \<in> set (map CountryKey (median_comp_by_country survey_df))"
    by (simp add: median_comp_by_country_def Let_def comp_def)
  then obtain l where l: "l \<in> set (median_comp_by_country survey_df)" "CountryKey l = k"
    unfolding set_map by blast
  from merge_left_matched[OF l(1) r(1)] r(2) l(2)
  have "\<lparr>CountryKey = CountryKey l, MedianCompensation = MedianCompensation l, Count = Count l,
          Cost_of_Living_Plus_Rent_Index = col_Cost_of_Living_Plus_Rent_Index r,
          Local_Purchasing_Power_Index = col_Local_Purchasing_Power_Index r\<rparr>
        \<in> set (dropna_subset (merge_left (median_comp_by_country survey_df) col_df))"
    using r(3,4) by (simp add: dropna_subset_def)
  then have "CountryKey \<lparr>CountryKey = CountryKey l, MedianCompensation = MedianCompensation l, Count = Count l,
          Cost_of_Living_Plus_Rent_Index = col_Cost_of_Living_Plus_Rent_Index r,
          Local_Purchasing_Power_Index = col_Local_Purchasing_Power_Index r\<rparr>
       \<in> CountryKey ` set (dropna_subset (merge_left (median_comp_by_country survey_df) col_df))"
    by (rule imageI)
  then have "k \<in> set (map CountryKey (dropna_subset (merge_left (median_comp_by_country survey_df) col_df)))"
    using l(2) by simp
  also have "map CountryKey (dropna_subset (merge_left (median_comp_by_country survey_df) col_df))
      = map CountryKey (merge_comp_col survey_df col_df)"
    by (simp add: merge_comp_col_def Let_def comp_def)
  finally show "k \<in> CountryKey ` set (merge_comp_col survey_df col_df)" by simp
qed

text \<open>An instance of C2: country C has no cost-of-living row, country B has one.\<close>

theorem merge_comp_col_inner_join_witness:
  "Some ''C'' \<in> Country ` set survey_example \<and> Some ''C'' \<notin> col_Country ` set col_example \<and>
   ''C'' \<notin> CountryKey ` set (merge_comp_col survey_example col_example) \<and>
   ''B'' \<in> CountryKey ` set (merge_comp_col survey_example col_example)"
proof -
  have 1: "Some ''C'' \<in> Country ` set survey_example \<and> Some ''C'' \<notin> col_Country ` set col_example"
    by (simp add: survey_example_def col_example_def)
  have 2: "Some ''B'' \<in> Country ` set survey_example \<and>
        (\<exists>r\<in>set col_example. col_Country r = Some ''B'' \<and> col_Cost_of_Living_Plus_Rent_Index r \<noteq> None \<and>
            col_Local_Purchasing_Power_Index r \<noteq> None)"
    by (simp add: survey_example_def col_example_def)
  note T = merge_comp_col_inner_join[of survey_example col_example]
  note unmatched = T[THEN conjunct2, THEN conjunct1, rule_format]
  note matched = T[THEN conjunct2, THEN conjunct2, rule_format]
  from 1 unmatched[OF 1] matched[OF 2] show ?thesis by (intro conjI) simp_all
qed




subsection \<open>Top-N filter\<close>

lemma set_head: "set (head n xs) \<subseteq> set xs"
  by (auto simp: head_def dest: in_set_takeD)

lemma value_counts_keys: "fst ` set (value_counts xs) = {v \<in> set xs. v \<noteq> None}"
proof -
  have "map fst (value_counts xs) =
      map fst (sort_key (\<lambda>(k, n). - int n)
        (map (\<lambda>k. (k, count_list (filter (\<lambda>v. v \<noteq> None) xs) k)) (rev (remdups (rev (filter (\<lambda>v. v \<noteq> None) xs))))))"
    by (simp add: value_counts_def Let_def)
  then have "set (map fst (value_counts xs)) =
      fst ` set (map (\<lambda>k. (k, count_list (filter (\<lambda>v. v \<noteq> None) xs) k)) (rev (remdups (rev (filter (\<lambda>v. v \<noteq> None) xs)))))"
    by simp
  also have "\<dots> = set (filter (\<lambda>v. v \<noteq> None) xs)"
    by (simp add: image_image)
  finally show ?thesis by auto
qed

text \<open>
  Claim C10.  The table returned by \<open>filter_top_countries\<close> consists of rows of the input,
  in their order and unchanged, and holds no row with a missing country: the missing
  value is not counted by \<open>value_counts\<close>, so it is never among the top countries.
\<close>

theorem filter_top_countries_subset:
  "subseq (filter_top_countries df n) df \<and>
   set (filter_top_countries df n) \<subseteq> set df \<and>
   (\<forall>r\<in>set (filter_top_countries df n). Country r \<noteq> None) \<and>
   None \<notin> fst ` set (value_counts (map Country df)) \<and>
   (\<forall>r\<in>set df. Country r = None \<longrightarrow> r \<notin> set (filter_top_countries df n))"
proof -
  have top: "None \<notin> set (map fst (head n (value_counts (map Country df))))"
  proof
    assume "None \<in> set (map fst (head n (value_counts (map Country df))))"
    then have "None \<in> fst ` set (head n (value_counts (map Country df)))" by simp
    moreover have "set (head n (value_counts (map Country df))) \<subseteq> set (value_counts (map Country df))"
      by (rule set_head)
    ultimately have "None \<in> fst ` set (value_counts (map Country df))" by blast
    then show False unfolding value_counts_keys by simp
  qed
  have 1: "subseq (filter_top_countries df n) df" by (simp add: filter_top_countries_def Let_def)
  have 2: "set (filter_top_countries df n) \<subseteq> set df" by (auto simp: filter_top_countries_def Let_def)
  have 3: "\<forall>r\<in>set (filter_top_countries df n). Country r \<noteq> None"
  proof
    fix r assume "r \<in> set (filter_top_countries df n)"
    then have in_top: "Country r \<in> set (map fst (head n (value_counts (map Country df))))"
      by (simp add: filter_top_countries_def Let_def)
    show "Country r \<noteq> None"
    proof
      assume "Country r = None"
      with in_top top show False by simp
    qed
  qed
  have 4: "None \<notin> fst ` set (value_counts (map Country df))" unfolding value_counts_keys by simp
  have 5: "\<forall>r\<in>set df. Country r = None \<longrightarrow> r \<notin> set (filter_top_countries df n)"
    using 3 by blast
  from 1 2 3 4 5 show ?thesis by (intro conjI)
qed

text \<open>An instance of C10: the top country of the example is A, with three rows.\<close>

theorem filter_top_countries_subset_witness:
  "subseq (filter_top_countries survey_example 1) survey_example \<and>
   map ResponseId (filter_top_countries survey_example 1) = [Some 2, Some 4, Some 5]"
proof -
  have "map ResponseId (filter_top_countries survey_example 1) = [Some 2, Some 4, Some 5]" by code_simp
  with filter_top_countries_subset[of survey_example 1, THEN conjunct1] show ?thesis by (intro conjI)
qed

end
